theory Spec2Isabelle
  imports Main "HOL-Library.AList"
begin

section \<open>Python values and errors\<close>

text \<open>
  A decoded JSON body is a dynamically typed Python value. Numbers are the integers
  (floating point numbers are left out of the model). A \<open>dict\<close> is written as the list
  of its items in insertion order; the keys of a dict are distinct, and the first binding
  of a key is the one a lookup finds.
\<close>

datatype json =
    JNull
  | JBool bool
  | JNum int
  | JStr string
  | JArr "json list"
  | JObj "(string \<times> json) list"

text \<open>
  The exceptions that can leave the module. \<open>ClientResponseError\<close> is what the HTTP
  client's \<open>raise_for_status\<close> raises; it carries the status. \<open>NotFoundError\<close> is named
  by the specification only: no statement of the source raises it. \<open>Unmodelled\<close> is not
  a Python exception: it marks a run that continues with a locale that is not a \<open>str\<close>
  (the parameter is annotated \<open>list[str]\<close>), which the model does not follow.
\<close>

datatype error =
    KeyError json
  | IndexError
  | TypeError
  | ValueError
  | ClientResponseError nat
  | NotFoundError
  | Unmodelled

definition bindE :: "error + 'a \<Rightarrow> ('a \<Rightarrow> error + 'b) \<Rightarrow> error + 'b" where
  "bindE m f = (case m of Inl e \<Rightarrow> Inl e | Inr x \<Rightarrow> f x)"

text \<open>\<open>v[k]\<close> for a string key \<open>k\<close>.\<close>

fun subscript :: "json \<Rightarrow> string \<Rightarrow> error + json" where
  "subscript (JObj kvs) k =
     (case map_of kvs k of None \<Rightarrow> Inl (KeyError (JStr k)) | Some v \<Rightarrow> Inr v)"
| "subscript JNull k = Inl TypeError"
| "subscript (JBool b) k = Inl TypeError"
| "subscript (JNum n) k = Inl TypeError"
| "subscript (JStr s) k = Inl TypeError"
| "subscript (JArr xs) k = Inl TypeError"

text \<open>\<open>v[0]\<close>.\<close>

fun subscript0 :: "json \<Rightarrow> error + json" where
  "subscript0 (JArr xs) = (case xs of [] \<Rightarrow> Inl IndexError | x # _ \<Rightarrow> Inr x)"
| "subscript0 (JStr s) = (case s of [] \<Rightarrow> Inl IndexError | c # _ \<Rightarrow> Inr (JStr [c]))"
| "subscript0 (JObj kvs) = Inl (KeyError (JNum 0))"
| "subscript0 JNull = Inl TypeError"
| "subscript0 (JBool b) = Inl TypeError"
| "subscript0 (JNum n) = Inl TypeError"

text \<open>\<open>for x in v\<close>: the elements of a list, the characters of a string, the keys of a dict.\<close>

fun iter :: "json \<Rightarrow> error + json list" where
  "iter (JArr xs) = Inr xs"
| "iter (JStr s) = Inr (map (\<lambda>c. JStr [c]) s)"
| "iter (JObj kvs) = Inr (map (\<lambda>kv. JStr (fst kv)) kvs)"
| "iter JNull = Inl TypeError"
| "iter (JBool b) = Inl TypeError"
| "iter (JNum n) = Inl TypeError"

text \<open>The truth value of \<open>v\<close> in a condition.\<close>

fun truthy :: "json \<Rightarrow> bool" where
  "truthy JNull = False"
| "truthy (JBool b) = b"
| "truthy (JNum n) = (n \<noteq> 0)"
| "truthy (JStr s) = (s \<noteq> [])"
| "truthy (JArr xs) = (xs \<noteq> [])"
| "truthy (JObj kvs) = (kvs \<noteq> [])"

text \<open>\<open>[f(x) for x in xs if c(x)]\<close>, where the condition and the element may raise.\<close>

fun comprehension ::
  "('a \<Rightarrow> error + bool) \<Rightarrow> ('a \<Rightarrow> error + 'b) \<Rightarrow> 'a list \<Rightarrow> error + 'b list" where
  "comprehension c f [] = Inr []"
| "comprehension c f (x # xs) =
     (case c x of
        Inl e \<Rightarrow> Inl e
      | Inr b \<Rightarrow>
          if b then
            (case f x of
               Inl e \<Rightarrow> Inl e
             | Inr y \<Rightarrow>
                 (case comprehension c f xs of Inl e \<Rightarrow> Inl e | Inr ys \<Rightarrow> Inr (y # ys)))
          else comprehension c f xs)"

text \<open>\<open>[f(x) for x in xs]\<close>.\<close>

fun mapE :: "('a \<Rightarrow> error + 'b) \<Rightarrow> 'a list \<Rightarrow> error + 'b list" where
  "mapE f [] = Inr []"
| "mapE f (x # xs) =
     (case f x of
        Inl e \<Rightarrow> Inl e
      | Inr y \<Rightarrow> (case mapE f xs of Inl e \<Rightarrow> Inl e | Inr ys \<Rightarrow> Inr (y # ys)))"

text \<open>
  A dict display or comprehension inserts its items one after the other: a repeated key
  keeps its first position and takes the last value.
\<close>

definition dict_of :: "(string \<times> 'v) list \<Rightarrow> (string \<times> 'v) list" where
  "dict_of items = fold (\<lambda>kv d. AList.update (fst kv) (snd kv) d) items []"

text \<open>\<open>str(n)\<close> for an integer: the decimal digits, with a minus sign below zero.\<close>

fun str_nat :: "nat \<Rightarrow> string" where
  "str_nat n =
     (if n < 10 then [char_of (48 + n)]
      else str_nat (n div 10) @ [char_of (48 + n mod 10)])"

definition str_int :: "int \<Rightarrow> string" where
  "str_int i = (if i < 0 then CHR ''-'' # str_nat (nat (- i)) else str_nat (nat i))"

section \<open>The provider\<close>

text \<open>What the HTTP client answers: the status and what \<open>r.json()\<close> gives.\<close>

record response =
  status_code :: nat
  json_body :: "error + json"

type_synonym date = "nat \<times> nat \<times> nat"

text \<open>
  \<open>self\<close>: the injected client session (a request is a URL and the query parameters) and
  the API key. Two functions of the Python runtime are taken with it: \<open>strptime\<close> at
  the format \<open>%Y-%m-%d\<close> (\<open>None\<close> when it raises ValueError) and \<open>str\<close> of a list or a
  dict, which an f-string applies to such a value.
\<close>

record provider =
  client :: "string \<Rightarrow> (string \<times> json) list \<Rightarrow> response"
  api_key :: string
  strptime :: "string \<Rightarrow> date option"
  str_container :: "json \<Rightarrow> string"

definition base :: string where
  "base = ''https://api.themoviedb.org/3''"

datatype genre =
    ACTION | ADVENTURE | ANIMATION | COMEDY | CRIME | DOCUMENTARY | DRAMA | FAMILY
  | FANTASY | HISTORY | HORROR | MUSIC | MYSTERY | ROMANCE | SCIENCE_FICTION | THRILLER
  | WAR | WESTERN

definition genre_map :: "(int \<times> genre) list" where
  "genre_map =
     [(28, ACTION), (12, ADVENTURE), (16, ANIMATION), (35, COMEDY), (80, CRIME),
      (99, DOCUMENTARY), (18, DRAMA), (10751, FAMILY), (14, FANTASY), (36, HISTORY),
      (27, HORROR), (10402, MUSIC), (9648, MYSTERY), (10749, ROMANCE),
      (878, SCIENCE_FICTION), (53, THRILLER), (10752, WAR), (37, WESTERN)]"

text \<open>\<open>f"{v}"\<close>: a string as it is, any other value through \<open>str\<close>.\<close>

fun format :: "provider \<Rightarrow> json \<Rightarrow> string" where
  "format self (JStr s) = s"
| "format self JNull = ''None''"
| "format self (JBool b) = (if b then ''True'' else ''False'')"
| "format self (JNum n) = str_int n"
| "format self (JArr xs) = str_container self (JArr xs)"
| "format self (JObj kvs) = str_container self (JObj kvs)"

subsection \<open>get_image\<close>

definition image_base :: string where
  "image_base = ''https://image.tmdb.org/t/p/original''"

definition get_image :: "provider \<Rightarrow> json \<Rightarrow> error + string list" where
  "get_image self images =
     bindE (iter images)
       (comprehension
          (\<lambda>x. bindE (subscript x ''file_path'') (\<lambda>p. Inr (truthy p)))
          (\<lambda>x. bindE (subscript x ''file_path'') (\<lambda>p. Inr (image_base @ format self p))))"

subsection \<open>get\<close>

text \<open>
  \<open>raise_for_status\<close> of the HTTP client raises \<open>ClientResponseError\<close> when the status is
  400 or higher.
\<close>

definition raise_for_status :: "response \<Rightarrow> error option" where
  "raise_for_status r =
     (if 400 \<le> status_code r then Some (ClientResponseError (status_code r)) else None)"

text \<open>The query parameters of the request: \<open>{"api_key": self.api_key, **params}\<close>
  over the parameters whose value is not \<open>None\<close>.\<close>

definition request_params :: "provider \<Rightarrow> (string \<times> json) list \<Rightarrow> (string \<times> json) list" where
  "request_params self params =
     dict_of ((''api_key'', JStr (api_key self))
              # dict_of (filter (\<lambda>kv. snd kv \<noteq> JNull) params))"

definition get :: "provider \<Rightarrow> string \<Rightarrow> (string \<times> json) list \<Rightarrow> error + json" where
  "get self path params =
     (let r = client self (base @ ''/'' @ path) (request_params self params)
      in case raise_for_status r of Some e \<Rightarrow> Inl e | None \<Rightarrow> json_body r)"

subsection \<open>process_translations\<close>

text \<open>
  \<open>asyncio.gather\<close> runs the tasks concurrently. \<open>order\<close> lists the task indices in the
  order in which the tasks complete. The first exception raised, in that order, is
  propagated; when no task raises, the results come back in the order of the tasks.
\<close>

fun collect :: "(error + 'a) list \<Rightarrow> error + 'a list" where
  "collect [] = Inr []"
| "collect (Inl e # rs) = Inl e"
| "collect (Inr x # rs) = (case collect rs of Inl e \<Rightarrow> Inl e | Inr xs \<Rightarrow> Inr (x # xs))"

definition gather :: "nat list \<Rightarrow> (error + 'a) list \<Rightarrow> error + 'a list" where
  "gather order tasks =
     (case collect (map (\<lambda>i. tasks ! i) (filter (\<lambda>i. i < length tasks) order)) of
        Inl e \<Rightarrow> Inl e
      | Inr _ \<Rightarrow> collect tasks)"

text \<open>Every entity carries the attribute \<open>translations\<close>: a dict from locale to translation.\<close>

record 't has_translations =
  translations_attr :: "(string \<times> 't) list"

definition getitem :: "(string \<times> 'v) list \<Rightarrow> string \<Rightarrow> error + 'v" where
  "getitem d k = (case map_of d k of None \<Rightarrow> Inl (KeyError (JStr k)) | Some v \<Rightarrow> Inr v)"

definition process_translations ::
  "nat list \<Rightarrow> (string \<Rightarrow> error + ('t, 'm) has_translations_scheme) \<Rightarrow> string list
     \<Rightarrow> error + ('t, 'm) has_translations_scheme" where
  "process_translations order for_language languages =
     bindE (gather order (map for_language languages)) (\<lambda>items.
       case items of
         [] \<Rightarrow> Inl IndexError
       | item # _ \<Rightarrow>
           bindE (mapE (\<lambda>kv. bindE (getitem (translations_attr (snd kv)) (fst kv))
                                (\<lambda>t. Inr (fst kv, t)))
                    (zip languages items))
             (\<lambda>kts. Inr (item\<lparr>translations_attr := dict_of kts\<rparr>)))"

section \<open>The domain model\<close>

text \<open>
  The entity classes (\<open>MetadataID\<close>, \<open>Studio\<close>, \<open>Movie\<close>, \<open>MovieTranslation\<close>, \<open>Show\<close>,
  \<open>ShowTranslation\<close>, \<open>Season\<close>, \<open>SeasonTranslation\<close>, \<open>PartialShow\<close>, the two \<open>Status\<close>
  enumerations) are declared in other modules of the package; the records below have
  the fields this module reads and writes, with the names it uses (prefixed where two
  classes share a name). A field filled from the response holds the value as found.
\<close>

record metadata_id =
  data_id :: json
  link :: string

record studio =
  studio_name :: json
  studio_logos :: "string list"
  studio_external_id :: "(string \<times> metadata_id) list"

datatype movie_status = FINISHED | PLANNED

record movie_translation =
  name_attr :: json
  tagline :: json
  keywords_attr :: "json list"
  overview :: json
  posters :: "string list"
  logos :: "string list"
  thumbnails :: "string list"
  trailers :: "string list"

record movie = "movie_translation has_translations" +
  original_language :: json
  aliases :: "json list"
  release_date :: date
  status :: movie_status
  studios :: "studio list"
  genres :: "genre list"
  external_id :: "(string \<times> metadata_id) list"

record season_translation =
  season_name :: json
  season_overview :: json
  poster :: "string list"
  season_thumbnails :: "string list"

record season = "season_translation has_translations" +
  season_number :: json
  start_date :: date
  end_date :: "date option"
  season_external_id :: "(string \<times> metadata_id) list"

datatype show_status = SHOW_FINISHED | SHOW_AIRING

record show_entity = "movie_translation has_translations" +
  show_original_language :: json
  show_aliases :: "json list"
  start_air :: date
  end_air :: date
  show_status :: show_status
  show_studios :: "studio list"
  show_genres :: "genre list"
  show_external_id :: "(string \<times> metadata_id) list"
  seasons :: "season list"

record partial_show =
  partial_external_id :: "(string \<times> metadata_id) list"
  partial_original_language :: string

section \<open>Building the entities\<close>

subsection \<open>to_studio\<close>

text \<open>\<open>company["name"]\<close> is read first and raises TypeError on anything but a dict.\<close>

fun to_studio :: "provider \<Rightarrow> json \<Rightarrow> error + studio" where
  "to_studio self (JObj company) =
     bindE (getitem company ''name'') (\<lambda>n.
       let ls = (case map_of company ''logo_path'' of
                   Some p \<Rightarrow> [image_base @ format self p]
                 | None \<Rightarrow> [])
       in bindE (getitem company ''id'') (\<lambda>i.
            Inr \<lparr>studio_name = n, studio_logos = ls,
                 studio_external_id =
                   [(''themoviedatabase'',
                     \<lparr>data_id = i,
                      link = ''https://www.themoviedb.org/company/'' @ format self i\<rparr>)]\<rparr>))"
| "to_studio self JNull = Inl TypeError"
| "to_studio self (JBool b) = Inl TypeError"
| "to_studio self (JNum n) = Inl TypeError"
| "to_studio self (JStr s) = Inl TypeError"
| "to_studio self (JArr xs) = Inl TypeError"

subsection \<open>The parts of the for_language functions\<close>

text \<open>\<open>datetime.strptime(v, "%Y-%m-%d").date()\<close>.\<close>

fun parse_date :: "provider \<Rightarrow> json \<Rightarrow> error + date" where
  "parse_date self (JStr s) = (case strptime self s of None \<Rightarrow> Inl ValueError | Some d \<Rightarrow> Inr d)"
| "parse_date self JNull = Inl TypeError"
| "parse_date self (JBool b) = Inl TypeError"
| "parse_date self (JNum n) = Inl TypeError"
| "parse_date self (JArr xs) = Inl TypeError"
| "parse_date self (JObj kvs) = Inl TypeError"

text \<open>\<open>[x["title"] for x in movie["alternative_titles"]["titles"]]\<close>.\<close>

definition aliases_of :: "json \<Rightarrow> error + json list" where
  "aliases_of movie =
     bindE (bindE (bindE (subscript movie ''alternative_titles'') (\<lambda>a. subscript a ''titles''))
              iter)
       (mapE (\<lambda>x. subscript x ''title''))"

text \<open>\<open>k in self.genre_map\<close>: a list or a dict is not hashable; \<open>True\<close> and \<open>False\<close> are
  the keys 1 and 0; no string and no \<open>None\<close> is a key of the table.\<close>

fun in_genre_map :: "json \<Rightarrow> error + bool" where
  "in_genre_map (JNum n) = Inr (map_of genre_map n \<noteq> None)"
| "in_genre_map (JBool b) = Inr (map_of genre_map (if b then 1 else 0) \<noteq> None)"
| "in_genre_map (JStr s) = Inr False"
| "in_genre_map JNull = Inr False"
| "in_genre_map (JArr xs) = Inl TypeError"
| "in_genre_map (JObj kvs) = Inl TypeError"

text \<open>\<open>self.genre_map[k]\<close>.\<close>

fun genre_map_getitem :: "json \<Rightarrow> error + genre" where
  "genre_map_getitem (JNum n) =
     (case map_of genre_map n of None \<Rightarrow> Inl (KeyError (JNum n)) | Some g \<Rightarrow> Inr g)"
| "genre_map_getitem (JBool b) =
     (case map_of genre_map (if b then 1 else 0) of
        None \<Rightarrow> Inl (KeyError (JBool b))
      | Some g \<Rightarrow> Inr g)"
| "genre_map_getitem (JStr s) = Inl (KeyError (JStr s))"
| "genre_map_getitem JNull = Inl (KeyError JNull)"
| "genre_map_getitem (JArr xs) = Inl TypeError"
| "genre_map_getitem (JObj kvs) = Inl TypeError"

text \<open>\<open>[self.genre_map[x["id"]] for x in v if x["id"] in self.genre_map]\<close>, for
  \<open>v = movie["genres"]\<close>.\<close>

definition genres_from :: "json \<Rightarrow> error + genre list" where
  "genres_from v =
     bindE (iter v)
       (comprehension
          (\<lambda>x. bindE (subscript x ''id'') in_genre_map)
          (\<lambda>x. bindE (subscript x ''id'') genre_map_getitem))"

text \<open>The \<open>external_id\<close> dict of a movie.\<close>

definition movie_external_id :: "provider \<Rightarrow> json \<Rightarrow> error + (string \<times> metadata_id) list" where
  "movie_external_id self movie =
     bindE (subscript movie ''id'') (\<lambda>i.
     bindE (subscript movie ''imdb_id'') (\<lambda>imdb.
       Inr [(''themoviedatabase'',
             \<lparr>data_id = i, link = ''https://www.themoviedb.org/movie/'' @ format self i\<rparr>),
            (''imdb'',
             \<lparr>data_id = imdb, link = ''https://www.imdb.com/title/'' @ format self imdb\<rparr>)]))"

text \<open>The trailers: the videos of type \<open>Trailer\<close> hosted on \<open>YouTube\<close>.\<close>

definition trailers_of :: "provider \<Rightarrow> json \<Rightarrow> error + string list" where
  "trailers_of self movie =
     bindE (bindE (bindE (subscript movie ''videos'') (\<lambda>v. subscript v ''results'')) iter)
       (comprehension
          (\<lambda>x. bindE (subscript x ''type'') (\<lambda>t.
                  if t = JStr ''Trailer''
                  then bindE (subscript x ''site'') (\<lambda>s. Inr (s = JStr ''YouTube''))
                  else Inr False))
          (\<lambda>x. bindE (subscript x ''key'') (\<lambda>k.
                  Inr (''https://www.youtube.com/watch?v'' @ format self k))))"

text \<open>\<open>MovieTranslation(...)\<close> and \<open>ShowTranslation(...)\<close>: the two differ in the key of
  the display name only (\<open>title\<close> for a movie, \<open>name\<close> for a show).\<close>

definition translation_of :: "provider \<Rightarrow> string \<Rightarrow> json \<Rightarrow> error + movie_translation" where
  "translation_of self name_key movie =
     bindE (subscript movie name_key) (\<lambda>n.
     bindE (subscript movie ''tagline'') (\<lambda>tl.
     bindE (bindE (bindE (bindE (subscript movie ''keywords'') (\<lambda>k. subscript k ''keywords''))
                     iter)
              (mapE (\<lambda>x. subscript x ''name''))) (\<lambda>kws.
     bindE (subscript movie ''overview'') (\<lambda>ov.
     bindE (bindE (bindE (subscript movie ''images'') (\<lambda>i. subscript i ''posters''))
              (get_image self)) (\<lambda>ps.
     bindE (bindE (bindE (subscript movie ''images'') (\<lambda>i. subscript i ''logos''))
              (get_image self)) (\<lambda>ls.
     bindE (bindE (bindE (subscript movie ''images'') (\<lambda>i. subscript i ''backdrops''))
              (get_image self)) (\<lambda>ths.
     bindE (trailers_of self movie) (\<lambda>trs.
       Inr \<lparr>name_attr = n, tagline = tl, keywords_attr = kws, overview = ov, posters = ps,
            logos = ls, thumbnails = ths, trailers = trs\<rparr>))))))))"

text \<open>
  The body of \<open>for_language\<close> in \<open>identify_movie\<close> after the request (the same statements
  stand in the \<open>for_language\<close> of \<open>identify_episode\<close>): the \<open>Movie\<close>, its arguments
  evaluated in the order written, then the translation of the locale.
\<close>

definition build_movie :: "provider \<Rightarrow> string \<Rightarrow> json \<Rightarrow> error + movie" where
  "build_movie self lng movie =
     bindE (subscript movie ''original_language'') (\<lambda>ol.
     bindE (aliases_of movie) (\<lambda>al.
     bindE (bindE (subscript movie ''release_date'') (parse_date self)) (\<lambda>rd.
     bindE (subscript movie ''status'') (\<lambda>st.
     bindE (bindE (bindE (subscript movie ''production_companies'') iter)
              (mapE (to_studio self))) (\<lambda>sts.
     bindE (bindE (subscript movie ''genres'') genres_from) (\<lambda>gs.
     bindE (movie_external_id self movie) (\<lambda>ext.
     bindE (translation_of self ''title'' movie) (\<lambda>translation.
       Inr \<lparr>translations_attr = [(lng, translation)],
            original_language = ol, aliases = al, release_date = rd,
            status = (if st = JStr ''Released'' then FINISHED else PLANNED),
            studios = sts, genres = gs, external_id = ext\<rparr>))))))))"

subsection \<open>to_season\<close>

fun to_season :: "provider \<Rightarrow> json \<Rightarrow> string \<Rightarrow> json \<Rightarrow> error + season" where
  "to_season self (JObj season) language show_id =
     bindE (getitem season ''season_number'') (\<lambda>num.
     bindE (bindE (getitem season ''air_date'') (parse_date self)) (\<lambda>start.
     bindE (getitem season ''id'') (\<lambda>i.
     bindE (getitem season ''name'') (\<lambda>n.
     bindE (getitem season ''overview'') (\<lambda>ov.
       let p = (case map_of season ''poster_path'' of
                  Some path \<Rightarrow> [image_base @ format self path]
                | None \<Rightarrow> [])
       in Inr \<lparr>translations_attr =
                  [(language,
                    \<lparr>season_name = n, season_overview = ov, poster = p,
                     season_thumbnails = []\<rparr>)],
               season_number = num, start_date = start, end_date = None,
               season_external_id =
                 [(''themoviedatabase'',
                   \<lparr>data_id = i,
                    link = ''https://www.themoviedb.org/tv/'' @ format self show_id
                             @ ''/season/'' @ format self num\<rparr>)]\<rparr>)))))"
| "to_season self JNull language show_id = Inl TypeError"
| "to_season self (JBool b) language show_id = Inl TypeError"
| "to_season self (JNum n) language show_id = Inl TypeError"
| "to_season self (JStr s) language show_id = Inl TypeError"
| "to_season self (JArr xs) language show_id = Inl TypeError"

subsection \<open>The show of one locale\<close>

definition show_external_id :: "provider \<Rightarrow> json \<Rightarrow> error + (string \<times> metadata_id) list" where
  "show_external_id self sh =
     bindE (subscript sh ''id'') (\<lambda>i.
     bindE (subscript sh ''imdb_id'') (\<lambda>imdb.
       Inr [(''themoviedatabase'',
             \<lparr>data_id = i, link = ''https://www.themoviedb.org/tv/'' @ format self i\<rparr>),
            (''imdb'',
             \<lparr>data_id = imdb, link = ''https://www.imdb.com/title/'' @ format self imdb\<rparr>)]))"

text \<open>The body of \<open>for_language\<close> in \<open>identify_show\<close> after the request.\<close>

definition build_show :: "provider \<Rightarrow> string \<Rightarrow> json \<Rightarrow> error + show_entity" where
  "build_show self lng sh =
     bindE (subscript sh ''original_language'') (\<lambda>ol.
     bindE (aliases_of sh) (\<lambda>al.
     bindE (bindE (subscript sh ''first_air_date'') (parse_date self)) (\<lambda>first_air.
     bindE (bindE (subscript sh ''last_air_date'') (parse_date self)) (\<lambda>last_air.
     bindE (bindE (subscript sh ''status'') (\<lambda>st.
              if st = JStr ''Released'' then Inr SHOW_FINISHED
              else bindE (subscript sh ''in_production'') (\<lambda>ip.
                     Inr (if truthy ip then SHOW_AIRING else SHOW_FINISHED)))) (\<lambda>st.
     bindE (bindE (bindE (subscript sh ''production_companies'') iter)
              (mapE (to_studio self))) (\<lambda>sts.
     bindE (bindE (subscript sh ''genres'') genres_from) (\<lambda>gs.
     bindE (show_external_id self sh) (\<lambda>ext.
     bindE (bindE (bindE (subscript sh ''seasons'') iter)
              (mapE (\<lambda>x. bindE (subscript sh ''id'') (to_season self x lng)))) (\<lambda>ss.
     bindE (translation_of self ''name'' sh) (\<lambda>translation.
       Inr \<lparr>translations_attr = [(lng, translation)],
            show_original_language = ol, show_aliases = al, start_air = first_air,
            end_air = last_air, show_status = st, show_studios = sts, show_genres = gs,
            show_external_id = ext, seasons = ss\<rparr>))))))))))"

section \<open>The identification operations\<close>

text \<open>
  The caller's \<open>language\<close> list is mutated in place, so each operation returns the list as
  the caller finds it after the call, next to the result or the exception raised.

  The list is a list of strings, as its annotation \<open>list[str]\<close> says. When the first
  search result holds an \<open>original_language\<close> that is not a string, the source appends that
  value to the list all the same and goes on with it as a locale; a list of strings cannot
  hold it, and \<open>identify_movie\<close> and \<open>identify_episode\<close> then give \<open>Unmodelled\<close>, which
  stands for no exception of the source. Every statement below that depends on this step
  takes the search result to declare a string.
\<close>

text \<open>\<open>if l not in language: language.append(l)\<close>.\<close>

definition append_missing :: "string \<Rightarrow> string list \<Rightarrow> string list" where
  "append_missing l language = (if l \<notin> set language then language @ [l] else language)"

definition detail_params :: "string \<Rightarrow> (string \<times> json) list" where
  "detail_params lng =
     [(''language'', JStr lng),
      (''append_to_response'', JStr ''alternative_titles,videos,credits,keywords,images'')]"

text \<open>\<open>(await self.get(path, params=params))["results"][0]\<close>: the first result of a search.\<close>

definition first_result :: "provider \<Rightarrow> string \<Rightarrow> (string \<times> json) list \<Rightarrow> error + json" where
  "first_result self path params =
     bindE (bindE (get self path params) (\<lambda>r. subscript r ''results'')) subscript0"

subsection \<open>identify_movie\<close>

definition movie_for_language :: "provider \<Rightarrow> json \<Rightarrow> string \<Rightarrow> error + movie" where
  "movie_for_language self movie_id lng =
     bindE (get self (''/movie/'' @ format self movie_id) (detail_params lng))
       (build_movie self lng)"

definition identify_movie ::
  "provider \<Rightarrow> nat list \<Rightarrow> string \<Rightarrow> int option \<Rightarrow> string list
     \<Rightarrow> string list \<times> (error + movie)" where
  "identify_movie self order name year language =
     (case first_result self ''search/movie''
             [(''query'', JStr name),
              (''year'', case year of None \<Rightarrow> JNull | Some y \<Rightarrow> JNum y)] of
        Inl e \<Rightarrow> (language, Inl e)
      | Inr search \<Rightarrow>
          (case subscript search ''id'' of
             Inl e \<Rightarrow> (language, Inl e)
           | Inr movie_id \<Rightarrow>
               (case subscript search ''original_language'' of
                  Inl e \<Rightarrow> (language, Inl e)
                | Inr (JStr l) \<Rightarrow>
                    (let language' = append_missing l language
                     in (language',
                         process_translations order (movie_for_language self movie_id)
                           language'))
                | Inr _ \<Rightarrow> (language, Inl Unmodelled))))"

subsection \<open>identify_show\<close>

definition show_for_language :: "provider \<Rightarrow> json \<Rightarrow> string \<Rightarrow> error + show_entity" where
  "show_for_language self show_id lng =
     bindE (get self (''/tv/'' @ format self show_id) (detail_params lng))
       (build_show self lng)"

definition identify_show ::
  "provider \<Rightarrow> nat list \<Rightarrow> partial_show \<Rightarrow> string list
     \<Rightarrow> string list \<times> (error + show_entity)" where
  "identify_show self order sh language =
     (case getitem (partial_external_id sh) ''themoviedatabase'' of
        Inl e \<Rightarrow> (language, Inl e)
      | Inr m \<Rightarrow>
          (let language' = append_missing (partial_original_language sh) language
           in (language',
               process_translations order (show_for_language self (data_id m)) language')))"

subsection \<open>identify_episode\<close>

text \<open>
  The \<open>Episode\<close> class is declared in another module; this module builds no value of it.
  What \<open>identify_episode\<close> hands to its caller is either an episode or a coroutine object
  that nothing has awaited yet, given with what awaiting it produces.
\<close>

typedecl episode

datatype returned = Episode episode | Coroutine "error + movie"

definition identify_episode ::
  "provider \<Rightarrow> nat list \<Rightarrow> string \<Rightarrow> int option \<Rightarrow> int option \<Rightarrow> int option
     \<Rightarrow> string list \<Rightarrow> string list \<times> (error + returned)" where
  "identify_episode self order name season episode absolute language =
     (case first_result self ''search/tv'' [(''query'', JStr name)] of
        Inl e \<Rightarrow> (language, Inl e)
      | Inr search \<Rightarrow>
          (case subscript search ''id'' of
             Inl e \<Rightarrow> (language, Inl e)
           | Inr show_id \<Rightarrow>
               (case subscript search ''original_language'' of
                  Inl e \<Rightarrow> (language, Inl e)
                | Inr (JStr l) \<Rightarrow>
                    (let language' = append_missing l language
                     in (language',
                         Inr (Coroutine
                                (process_translations order
                                   (movie_for_language self show_id) language'))))
                | Inr _ \<Rightarrow> (language, Inl Unmodelled))))"

section \<open>Notions used in the statements\<close>

text \<open>The value under \<open>file_path\<close> of an image entry whose path is \<open>null\<close> (\<open>None\<close>) or
  a string.\<close>

definition path_value :: "string option \<Rightarrow> json" where
  "path_value p = (case p of None \<Rightarrow> JNull | Some s \<Rightarrow> JStr s)"

section \<open>A fake transport\<close>

text \<open>
  A test double for the client session: the two search requests answer two results, the
  detail request of movie 603 answers one payload whose title names the locale asked
  for, and every other request answers 404. \<open>fake_detail\<close> takes the remote status
  string and the locale.
\<close>

definition fake_detail :: "string \<Rightarrow> string \<Rightarrow> json" where
  "fake_detail st lng =
     JObj [(''id'', JNum 603),
           (''imdb_id'', JStr ''tt0133093''),
           (''original_language'', JStr ''en''),
           (''title'', JStr (''The Matrix/'' @ lng)),
           (''tagline'', JStr ''Free your mind''),
           (''overview'', JStr ''A hacker learns the truth''),
           (''release_date'', JStr ''1999-03-31''),
           (''status'', JStr st),
           (''alternative_titles'', JObj [(''titles'', JArr [JObj [(''title'', JStr ''Matrix'')]])]),
           (''production_companies'',
            JArr [JObj [(''id'', JNum 79), (''name'', JStr ''Village Roadshow''),
                        (''logo_path'', JStr ''/logo.png'')]]),
           (''genres'',
            JArr [JObj [(''id'', JNum 28), (''name'', JStr ''Action'')],
                  JObj [(''id'', JNum 999999), (''name'', JStr ''Unknown'')]]),
           (''keywords'', JObj [(''keywords'', JArr [JObj [(''name'', JStr ''hacker'')]])]),
           (''images'',
            JObj [(''posters'',
                   JArr [JObj [(''file_path'', JStr ''/abc.jpg'')],
                         JObj [(''file_path'', JNull)]]),
                  (''logos'', JArr []),
                  (''backdrops'', JArr [])]),
           (''videos'',
            JObj [(''results'',
                   JArr [JObj [(''type'', JStr ''Trailer''), (''site'', JStr ''YouTube''),
                               (''key'', JStr ''vKQi3bBA1y8'')]])])]"

definition fake_search :: json where
  "fake_search =
     JObj [(''results'',
            JArr [JObj [(''id'', JNum 603), (''original_language'', JStr ''en'')],
                  JObj [(''id'', JNum 604), (''original_language'', JStr ''en'')]])]"

definition fake_client :: "string \<Rightarrow> (string \<times> json) list \<Rightarrow> response" where
  "fake_client url params =
     (if url = ''https://api.themoviedb.org/3/search/movie''
         \<or> url = ''https://api.themoviedb.org/3/search/tv''
      then \<lparr>status_code = 200, json_body = Inr fake_search\<rparr>
      else if url = ''https://api.themoviedb.org/3//movie/603''
      then \<lparr>status_code = 200,
            json_body = Inr (fake_detail ''Released''
                               (case map_of params ''language'' of
                                  Some (JStr l) \<Rightarrow> l
                                | _ \<Rightarrow> []))\<rparr>
      else \<lparr>status_code = 404, json_body = Inl ValueError\<rparr>)"

definition fake_provider :: provider where
  "fake_provider =
     \<lparr>client = fake_client, api_key = ''secret'',
      strptime = (\<lambda>s. if s = ''1999-03-31'' then Some (1999, 3, 31) else None),
      str_container = (\<lambda>v. [])\<rparr>"

text \<open>A client whose search finds nothing.\<close>

definition empty_search_provider :: provider where
  "empty_search_provider =
     fake_provider
       \<lparr>client := (\<lambda>url params.
                    \<lparr>status_code = 200, json_body = Inr (JObj [(''results'', JArr [])])\<rparr>)\<rparr>"

text \<open>
  A transport whose search and detail answers disagree: the first search result declares
  the original language \<open>en\<close>, every detail payload declares \<open>ja\<close>.
  \<open>with_original_language\<close> sets the key in a payload.
\<close>

definition with_original_language :: "string \<Rightarrow> json \<Rightarrow> json" where
  "with_original_language l v =
     (case v of JObj kvs \<Rightarrow> JObj (AList.update ''original_language'' (JStr l) kvs) | _ \<Rightarrow> v)"

definition mismatch_client :: "string \<Rightarrow> (string \<times> json) list \<Rightarrow> response" where
  "mismatch_client url params =
     (if url = ''https://api.themoviedb.org/3/search/movie''
      then \<lparr>status_code = 200, json_body = Inr fake_search\<rparr>
      else \<lparr>status_code = 200,
            json_body = Inr (with_original_language ''ja''
                               (fake_detail ''Released''
                                  (case map_of params ''language'' of
                                     Some (JStr l) \<Rightarrow> l
                                   | _ \<Rightarrow> [])))\<rparr>)"

definition mismatch_provider :: provider where
  "mismatch_provider = fake_provider\<lparr>client := mismatch_client\<rparr>"

section \<open>Basic facts\<close>

subsection \<open>The error monad and the comprehensions\<close>

lemma bindE_Inl [simp]: "bindE (Inl e) f = Inl e"
  by (simp add: bindE_def)

lemma bindE_Inr [simp]: "bindE (Inr x) f = f x"
  by (simp add: bindE_def)

lemma bindE_InrE:
  assumes "bindE m f = Inr y"
  obtains x where "m = Inr x" and "f x = Inr y"
  using assms by (cases m) simp_all

lemma comprehension_total:
  assumes "list_all2 (\<lambda>x p. c x = Inr (keep p) \<and> f x = Inr (g p)) xs ps"
  shows "comprehension c f xs = Inr (map g (filter keep ps))"
  using assms by (induction xs ps rule: list_all2_induct) simp_all

lemma mapE_Inr_iff: "mapE f xs = Inr ys \<longleftrightarrow> list_all2 (\<lambda>x y. f x = Inr y) xs ys"
proof (induction xs arbitrary: ys)
  case Nil
  then show ?case by auto
next
  case (Cons x xs)
  then show ?case
    by (cases "f x"; cases "mapE f xs") (auto simp: list_all2_Cons1)
qed

lemma mapE_success:
  assumes "\<And>x. x \<in> set xs \<Longrightarrow> f x = Inr (g x)"
  shows "mapE f xs = Inr (map g xs)"
  using assms by (induction xs) simp_all

lemma list_all2_map_eq:
  "list_all2 (\<lambda>x y. f x = g y) xs ys \<Longrightarrow> map f xs = map g ys"
  by (induction xs ys rule: list_all2_induct) simp_all

subsection \<open>Dicts built by successive insertion\<close>

lemma fold_update_keys:
  "fst ` set (fold (\<lambda>kv d. AList.update (fst kv) (snd kv) d) items d)
     = fst ` set items \<union> fst ` set d"
  by (induction items arbitrary: d) (auto simp: dom_update)

lemma fold_update_distinct:
  "distinct (map fst d) \<Longrightarrow>
   distinct (map fst (fold (\<lambda>kv d. AList.update (fst kv) (snd kv) d) items d))"
  by (induction items arbitrary: d) (simp_all add: distinct_update)

lemma fold_update_map_of:
  "map_of (fold (\<lambda>kv d. AList.update (fst kv) (snd kv) d) items d)
     = map_of d ++ map_of (rev items)"
  by (induction items arbitrary: d) (auto simp: update_conv' fun_eq_iff map_add_def split: option.splits)

lemma dict_of_keys: "fst ` set (dict_of items) = fst ` set items"
  by (simp add: dict_of_def fold_update_keys)

lemma dict_of_distinct: "distinct (map fst (dict_of items))"
  by (simp add: dict_of_def fold_update_distinct)

lemma map_of_dict_of: "map_of (dict_of items) = map_of (rev items)"
  by (simp add: dict_of_def fold_update_map_of)

lemma set_update_subset: "set (AList.update k v d) \<subseteq> insert (k, v) (set d)"
  by (induction d) auto

lemma fold_update_values:
  "set (fold (\<lambda>kv d. AList.update (fst kv) (snd kv) d) items d) \<subseteq> set items \<union> set d"
proof (induction items arbitrary: d)
  case Nil
  then show ?case by simp
next
  case (Cons kv items)
  have "set (fold (\<lambda>kv d. AList.update (fst kv) (snd kv) d) items (AList.update (fst kv) (snd kv) d))
          \<subseteq> set items \<union> set (AList.update (fst kv) (snd kv) d)"
    by (rule Cons.IH)
  also have "\<dots> \<subseteq> set items \<union> insert (fst kv, snd kv) (set d)"
    using set_update_subset [of "fst kv" "snd kv" d] by blast
  finally show ?case by auto
qed

lemma dict_of_subset: "set (dict_of items) \<subseteq> set items"
  using fold_update_values [of items "[]"] by (simp add: dict_of_def)

lemma map_of_rev_distinct: "distinct (map fst xs) \<Longrightarrow> map_of (rev xs) = map_of xs"
proof (induction xs)
  case Nil
  then show ?case by simp
next
  case (Cons kv xs)
  then have "map_of xs (fst kv) = None"
    by (simp add: map_of_eq_None_iff)
  with Cons show ?case
    by (cases kv) (auto simp: fun_eq_iff map_add_def split: option.splits)
qed

lemma map_of_rev_pairs:
  "map_of (rev (map (\<lambda>l. (l, t l)) L)) l = (if l \<in> set L then Some (t l) else None)"
  by (induction L) (auto simp: map_add_def split: option.splits)

lemma map_of_filter_not_null:
  "distinct (map fst xs) \<Longrightarrow>
   map_of (filter (\<lambda>kv. snd kv \<noteq> JNull) xs) k
     = (case map_of xs k of None \<Rightarrow> None | Some v \<Rightarrow> if v = JNull then None else Some v)"
proof (induction xs)
  case Nil
  then show ?case by simp
next
  case (Cons kv xs)
  then have "map_of xs (fst kv) = None"
    by (simp add: map_of_eq_None_iff)
  with Cons show ?case
    by (cases kv) (auto split: option.splits)
qed

subsection \<open>Gathering the tasks\<close>

lemma collect_Inr_iff: "collect rs = Inr xs \<longleftrightarrow> rs = map Inr xs"
proof (induction rs arbitrary: xs)
  case Nil
  then show ?case by auto
next
  case (Cons r rs)
  show ?case
  proof (cases r)
    case (Inl e)
    then show ?thesis by auto
  next
    case (Inr x)
    then show ?thesis using Cons.IH by (cases "collect rs") (auto simp: Cons_eq_map_conv)
  qed
qed

lemma collect_Inl_mem: "collect rs = Inl e \<Longrightarrow> Inl e \<in> set rs"
proof (induction rs)
  case Nil
  then show ?case by simp
next
  case (Cons r rs)
  then show ?case by (cases r) (auto split: sum.splits)
qed

lemma gather_Inr_iff: "gather order tasks = Inr xs \<longleftrightarrow> tasks = map Inr xs"
proof
  assume "gather order tasks = Inr xs"
  then have "collect tasks = Inr xs"
    by (simp add: gather_def split: sum.splits)
  then show "tasks = map Inr xs" by (simp add: collect_Inr_iff)
next
  assume t: "tasks = map Inr xs"
  have "map (\<lambda>i. tasks ! i) (filter (\<lambda>i. i < length tasks) order)
          = map Inr (map (\<lambda>i. xs ! i) (filter (\<lambda>i. i < length tasks) order))"
    using t by simp
  then have "collect (map (\<lambda>i. tasks ! i) (filter (\<lambda>i. i < length tasks) order))
          = Inr (map (\<lambda>i. xs ! i) (filter (\<lambda>i. i < length tasks) order))"
    by (simp only: collect_Inr_iff)
  moreover have "collect tasks = Inr xs" using t by (simp add: collect_Inr_iff)
  ultimately show "gather order tasks = Inr xs" by (simp add: gather_def)
qed

lemma gather_Inl_mem:
  assumes "gather order tasks = Inl e"
  shows "Inl e \<in> set tasks"
proof (cases "collect (map (\<lambda>i. tasks ! i) (filter (\<lambda>i. i < length tasks) order))")
  case (Inl e')
  with assms have "e' = e" by (simp add: gather_def)
  with Inl have "Inl e \<in> set (map (\<lambda>i. tasks ! i) (filter (\<lambda>i. i < length tasks) order))"
    by (simp only: collect_Inl_mem)
  then show ?thesis by auto
next
  case (Inr xs)
  with assms have "collect tasks = Inl e" by (simp add: gather_def)
  then show ?thesis by (rule collect_Inl_mem)
qed

lemma gather_fails:
  assumes "Inl e \<in> set tasks"
  shows "\<exists>e'. gather order tasks = Inl e' \<and> Inl e' \<in> set tasks"
proof (cases "gather order tasks")
  case (Inl e')
  then show ?thesis using gather_Inl_mem by blast
next
  case (Inr xs)
  then have "tasks = map Inr xs" by (simp add: gather_Inr_iff)
  with assms show ?thesis by auto
qed

subsection \<open>The fake transport\<close>

lemma fake_first_result:
  "first_result fake_provider ''search/movie'' ps
     = Inr (JObj [(''id'', JNum 603), (''original_language'', JStr ''en'')])"
  "first_result fake_provider ''search/tv'' ps
     = Inr (JObj [(''id'', JNum 603), (''original_language'', JStr ''en'')])"
  by (simp_all add: first_result_def get_def raise_for_status_def fake_provider_def
      fake_client_def base_def fake_search_def)

lemma fake_build_movie: "\<exists>m. build_movie fake_provider lng (fake_detail st lng) = Inr m"
  by (simp add: build_movie_def fake_detail_def fake_provider_def aliases_of_def genres_from_def
      movie_external_id_def translation_of_def get_image_def trailers_of_def genre_map_def
      getitem_def)

lemma str_int_603: "str_int 603 = ''603''"
  by code_simp

lemma format_603: "format self (JNum 603) = ''603''"
  by (simp add: str_int_603)

lemma fake_movie_for_language:
  "movie_for_language fake_provider (JNum 603) lng
     = build_movie fake_provider lng (fake_detail ''Released'' lng)"
  by (simp add: movie_for_language_def get_def raise_for_status_def fake_provider_def
      fake_client_def base_def format_603 request_params_def dict_of_def detail_params_def
      del: format.simps)

section \<open>Image URLs\<close>

lemma get_image_general:
  assumes "list_all2 (\<lambda>x p. subscript x ''file_path'' = Inr p) images paths"
  shows "get_image self (JArr images)
           = Inr (map (\<lambda>p. image_base @ format self p) (filter truthy paths))"
proof -
  have "list_all2 (\<lambda>x p. bindE (subscript x ''file_path'') (\<lambda>p. Inr (truthy p)) = Inr (truthy p)
            \<and> bindE (subscript x ''file_path'') (\<lambda>p. Inr (image_base @ format self p))
                = Inr (image_base @ format self p)) images paths"
    using assms by (rule list_all2_mono) simp
  then show ?thesis
    unfolding get_image_def by (simp add: comprehension_total)
qed

lemma filter_truthy_paths:
  "map (\<lambda>p. image_base @ format self p) (filter truthy (map path_value paths))
     = map (\<lambda>s. image_base @ s) (filter (\<lambda>s. s \<noteq> []) (List.map_filter id paths))"
  by (induction paths) (auto simp: path_value_def List.map_filter_simps split: option.splits)

text \<open>
  Claim C6, as the code has it. For a list of image entries that each have the key
  \<open>file_path\<close>, holding \<open>null\<close> or a string, \<open>get_image\<close> raises nothing and returns the
  fixed prefix followed by the path, for the entries whose path is a non-empty string and
  in their order; the entries whose path is \<open>null\<close> or the empty string are left out.
\<close>

theorem get_image_paths:
  assumes "list_all2 (\<lambda>x p. subscript x ''file_path'' = Inr (path_value p)) images paths"
  shows "get_image self (JArr images)
           = Inr (map (\<lambda>s. image_base @ s) (filter (\<lambda>s. s \<noteq> []) (List.map_filter id paths)))"
proof -
  have "list_all2 (\<lambda>x p. subscript x ''file_path'' = Inr p) images (map path_value paths)"
    using assms by (simp add: list_all2_map2)
  from get_image_general [OF this] show ?thesis
    by (simp only: filter_truthy_paths)
qed

text \<open>
  Three entries: a path, \<open>null\<close> and the empty string. Only the first gives a URL.
\<close>

theorem get_image_paths_witness:
  "get_image fake_provider
     (JArr [JObj [(''file_path'', JStr ''/abc.jpg'')], JObj [(''file_path'', JNull)],
            JObj [(''file_path'', JStr '''')]])
     = Inr [''https://image.tmdb.org/t/p/original/abc.jpg'']"
  using get_image_paths [of "[JObj [(''file_path'', JStr ''/abc.jpg'')], JObj [(''file_path'', JNull)],
            JObj [(''file_path'', JStr '''')]]" "[Some ''/abc.jpg'', None, Some '''']" fake_provider]
  by (simp add: path_value_def image_base_def List.map_filter_simps)

text \<open>
  An entry with no \<open>file_path\<close> key is not left out: the condition \<open>x["file_path"]\<close> of
  the comprehension raises KeyError, and no list is returned.
\<close>

theorem get_image_missing_key_counterexample:
  "get_image fake_provider (JArr [JObj [(''file_path'', JStr ''/abc.jpg'')], JObj []])
     = Inl (KeyError (JStr ''file_path''))"
  by (simp add: get_image_def)

section \<open>The HTTP accessor\<close>

lemma request_params_not_null: "JNull \<notin> snd ` set (request_params self params)"
proof -
  have "set (request_params self params)
          \<subseteq> insert (''api_key'', JStr (api_key self))
               (set (dict_of (filter (\<lambda>kv. snd kv \<noteq> JNull) params)))"
    unfolding request_params_def using dict_of_subset by fastforce
  also have "\<dots> \<subseteq> insert (''api_key'', JStr (api_key self))
                     (set (filter (\<lambda>kv. snd kv \<noteq> JNull) params))"
    using dict_of_subset by blast
  finally show ?thesis by auto
qed

lemma map_of_request_params:
  assumes "distinct (map fst params)"
  shows "map_of (request_params self params) k
           = (case map_of params k of
                Some v \<Rightarrow> if v \<noteq> JNull then Some v
                          else if k = ''api_key'' then Some (JStr (api_key self)) else None
              | None \<Rightarrow> if k = ''api_key'' then Some (JStr (api_key self)) else None)"
proof -
  let ?f = "filter (\<lambda>kv. snd kv \<noteq> JNull) params"
  have d: "distinct (map fst ?f)" using assms by (simp add: distinct_map_filter)
  have "map_of (rev (dict_of ?f)) = map_of (dict_of ?f)"
    by (rule map_of_rev_distinct) (rule dict_of_distinct)
  also have "\<dots> = map_of (rev ?f)" by (rule map_of_dict_of)
  also have "\<dots> = map_of ?f" using d by (rule map_of_rev_distinct)
  finally have "map_of (request_params self params)
                  = [''api_key'' \<mapsto> JStr (api_key self)] ++ map_of ?f"
    by (simp add: request_params_def map_of_dict_of)
  then show ?thesis
    by (simp add: map_add_def map_of_filter_not_null [OF assms] split: option.splits)
qed

lemma get_result:
  "get self path params
     = (let r = client self (base @ ''/'' @ path) (request_params self params)
        in if 400 \<le> status_code r then Inl (ClientResponseError (status_code r))
           else json_body r)"
  by (simp add: get_def raise_for_status_def Let_def)

text \<open>
  Claim C7, as the code has it. For every path and every parameter dict, no parameter
  of the request is \<open>None\<close>: an entry whose value is \<open>None\<close> is dropped, every other entry
  is passed as it is. The request always has the parameter \<open>api_key\<close>; it is the static
  key unless the caller's dict has an entry \<open>api_key\<close> of its own with a value, which then
  stands in its place. When the status of the response is 400 or higher \<open>get\<close> raises
  the error that carries the status; otherwise it returns what decoding the body gives.
\<close>

theorem get_contract:
  assumes "distinct (map fst params)"
  shows "JNull \<notin> snd ` set (request_params self params)
       \<and> (\<forall>k. map_of (request_params self params) k
               = (case map_of params k of
                    Some v \<Rightarrow> if v \<noteq> JNull then Some v
                              else if k = ''api_key'' then Some (JStr (api_key self)) else None
                  | None \<Rightarrow> if k = ''api_key'' then Some (JStr (api_key self)) else None))
       \<and> get self path params
           = (let r = client self (base @ ''/'' @ path) (request_params self params)
              in if 400 \<le> status_code r then Inl (ClientResponseError (status_code r))
                 else json_body r)"
  using request_params_not_null map_of_request_params [OF assms] get_result by blast

text \<open>
  The search parameters of a movie without a year, sent through the fake transport:
  the year is dropped, the key is added, the known path answers its body and an unknown
  path raises with the status 404.
\<close>

theorem get_contract_witness:
  "map_of (request_params fake_provider [(''query'', JStr ''matrix''), (''year'', JNull)])
      ''api_key'' = Some (JStr ''secret'')
   \<and> map_of (request_params fake_provider [(''query'', JStr ''matrix''), (''year'', JNull)])
      ''year'' = None
   \<and> get fake_provider ''search/movie'' [(''query'', JStr ''matrix''), (''year'', JNull)]
       = Inr fake_search
   \<and> get fake_provider ''search/person'' [(''query'', JStr ''matrix''), (''year'', JNull)]
       = Inl (ClientResponseError 404)"
proof -
  have d: "distinct (map fst [(''query'', JStr ''matrix''), (''year'', JNull)])" by simp
  note t = get_contract [OF d, of fake_provider]
  have "map_of (request_params fake_provider [(''query'', JStr ''matrix''), (''year'', JNull)])
      ''api_key'' = Some (JStr ''secret'')"
    using t [of "''''"] by (simp add: fake_provider_def)
  moreover have "map_of (request_params fake_provider [(''query'', JStr ''matrix''), (''year'', JNull)])
      ''year'' = None"
    using t [of "''''"] by simp
  moreover have "get fake_provider ''search/movie'' [(''query'', JStr ''matrix''), (''year'', JNull)]
       = Inr fake_search"
    using t [of "''search/movie''"] by (simp add: fake_provider_def fake_client_def base_def)
  moreover have "get fake_provider ''search/person'' [(''query'', JStr ''matrix''), (''year'', JNull)]
       = Inl (ClientResponseError 404)"
    using t [of "''search/person''"] by (simp add: fake_provider_def fake_client_def base_def)
  ultimately show ?thesis by blast
qed

text \<open>
  A caller's own \<open>api_key\<close> entry overrides the static key: \<open>**params\<close> is merged after
  it. The request then does not carry the static key.
\<close>

theorem api_key_counterexample:
  "request_params fake_provider [(''api_key'', JStr ''other'')] = [(''api_key'', JStr ''other'')]
   \<and> api_key fake_provider = ''secret''"
  by (simp add: request_params_def dict_of_def fake_provider_def)

section \<open>The translation aggregator\<close>

lemma process_translations_Inr:
  assumes "process_translations order f L = Inr r"
  obtains item items kts where
    "map f L = map Inr (item # items)"
    "list_all2 (\<lambda>kv kt. getitem (translations_attr (snd kv)) (fst kv) = Inr (snd kt)
                          \<and> fst kt = fst kv) (zip L (item # items)) kts"
    "r = item\<lparr>translations_attr := dict_of kts\<rparr>"
proof -
  from assms obtain xs where g: "gather order (map f L) = Inr xs"
    and rest: "(case xs of [] \<Rightarrow> Inl IndexError
       | item # _ \<Rightarrow>
           bindE (mapE (\<lambda>kv. bindE (getitem (translations_attr (snd kv)) (fst kv))
                                (\<lambda>t. Inr (fst kv, t)))
                    (zip L xs))
             (\<lambda>kts. Inr (item\<lparr>translations_attr := dict_of kts\<rparr>))) = Inr r"
    unfolding process_translations_def by (elim bindE_InrE)
  from rest obtain item items where xs: "xs = item # items"
    by (cases xs) simp_all
  from rest xs obtain kts where
    m: "mapE (\<lambda>kv. bindE (getitem (translations_attr (snd kv)) (fst kv))
                       (\<lambda>t. Inr (fst kv, t))) (zip L (item # items)) = Inr kts"
    and r: "r = item\<lparr>translations_attr := dict_of kts\<rparr>"
    by (auto elim!: bindE_InrE)
  from m have "list_all2 (\<lambda>kv kt. bindE (getitem (translations_attr (snd kv)) (fst kv))
                       (\<lambda>t. Inr (fst kv, t)) = Inr kt) (zip L (item # items)) kts"
    by (simp only: mapE_Inr_iff)
  then have "list_all2 (\<lambda>kv kt. getitem (translations_attr (snd kv)) (fst kv) = Inr (snd kt)
                          \<and> fst kt = fst kv) (zip L (item # items)) kts"
    by (rule list_all2_mono) (auto elim!: bindE_InrE)
  moreover from g xs have "map f L = map Inr (item # items)"
    by (simp add: gather_Inr_iff)
  ultimately show thesis using r that by blast
qed

lemma process_translations_keys:
  assumes "process_translations order f L = Inr r"
  shows "fst ` set (translations_attr r) = set L"
    and "distinct (map fst (translations_attr r))"
    and "L \<noteq> []"
proof -
  from assms obtain item items kts where
    fs: "map f L = map Inr (item # items)" and
    la: "list_all2 (\<lambda>kv kt. getitem (translations_attr (snd kv)) (fst kv) = Inr (snd kt)
                          \<and> fst kt = fst kv) (zip L (item # items)) kts" and
    r: "r = item\<lparr>translations_attr := dict_of kts\<rparr>"
    by (rule process_translations_Inr)
  from fs have len: "length L = length (item # items)"
    by (metis length_map)
  from la have "list_all2 (\<lambda>kv kt. fst kv = fst kt) (zip L (item # items)) kts"
    by (rule list_all2_mono) simp
  then have "map fst (zip L (item # items)) = map fst kts"
    by (rule list_all2_map_eq)
  with len have keys: "map fst kts = L" by (metis map_fst_zip)
  have "fst ` set (translations_attr r) = fst ` set kts"
    using r by (simp add: dict_of_keys)
  also have "\<dots> = set (map fst kts)" by simp
  finally show "fst ` set (translations_attr r) = set L" using keys by simp
  show "distinct (map fst (translations_attr r))" using r by (simp add: dict_of_distinct)
  show "L \<noteq> []" using len by auto
qed

lemma process_translations_first:
  assumes "process_translations order f L = Inr r"
  obtains item kts where "f (hd L) = Inr item" and "r = item\<lparr>translations_attr := kts\<rparr>"
proof -
  from assms obtain item items kts where
    fs: "map f L = map Inr (item # items)" and
    r: "r = item\<lparr>translations_attr := dict_of kts\<rparr>"
    by (rule process_translations_Inr)
  from fs have "f (hd L) = Inr item" by (cases L) auto
  with r show thesis using that by blast
qed

lemma process_translations_value:
  assumes "L \<noteq> []"
    and "\<And>l. l \<in> set L \<Longrightarrow> f l = Inr (item l)"
    and "\<And>l. l \<in> set L \<Longrightarrow> map_of (translations_attr (item l)) l = Some (t l)"
  shows "process_translations order f L
           = Inr ((item (hd L))\<lparr>translations_attr := dict_of (map (\<lambda>l. (l, t l)) L)\<rparr>)"
proof -
  have "map f L = map Inr (map item L)" using assms(2) by simp
  then have g: "gather order (map f L) = Inr (map item L)"
    by (simp only: gather_Inr_iff)
  have z: "zip L (map item L) = map (\<lambda>l. (l, item l)) L"
    by (induction L) simp_all
  have m: "mapE (\<lambda>kv. bindE (getitem (translations_attr (snd kv)) (fst kv))
                       (\<lambda>t. Inr (fst kv, t))) (map (\<lambda>l. (l, item l)) L)
             = Inr (map (\<lambda>kv. (fst kv, t (fst kv))) (map (\<lambda>l. (l, item l)) L))"
    by (rule mapE_success) (auto simp: getitem_def assms(3))
  have m': "mapE (\<lambda>kv. bindE (getitem (translations_attr (snd kv)) (fst kv))
                       (\<lambda>t. Inr (fst kv, t))) (zip L (map item L))
             = Inr (map (\<lambda>l. (l, t l)) L)"
    using m by (simp add: z o_def)
  have c: "\<And>a b. (case map item L of [] \<Rightarrow> a | x # xs \<Rightarrow> b x) = b (item (hd L))"
    using assms(1) by (cases L) simp_all
  show ?thesis
    unfolding process_translations_def g by (simp only: bindE_Inr c m')
qed

text \<open>
  Claim C1, as the code has it. Let \<open>L\<close> be a non-empty list of locales and \<open>f\<close> a
  producer that succeeds on every locale of \<open>L\<close>, with a result (\<open>item l\<close>) whose
  translations hold an entry under that locale (\<open>t l\<close>). Then, whatever the order in which
  the tasks complete, \<open>process_translations\<close> returns an entity whose fields other than the
  translations are those of the result for the first locale of \<open>L\<close>, and whose
  translations have exactly one entry for each locale of \<open>L\<close>, the translation found
  under that locale in that locale's result.
\<close>

theorem process_translations_merge:
  assumes "L \<noteq> []"
    and "\<And>l. l \<in> set L \<Longrightarrow> f l = Inr (item l)"
    and "\<And>l. l \<in> set L \<Longrightarrow> map_of (translations_attr (item l)) l = Some (t l)"
  shows "\<exists>r. process_translations order f L = Inr r
           \<and> has_translations.more r = has_translations.more (item (hd L))
           \<and> fst ` set (translations_attr r) = set L
           \<and> distinct (map fst (translations_attr r))
           \<and> (\<forall>l \<in> set L. map_of (translations_attr r) l = Some (t l))"
proof -
  define r where "r = (item (hd L))\<lparr>translations_attr := dict_of (map (\<lambda>l. (l, t l)) L)\<rparr>"
  have res: "process_translations order f L = Inr r"
    unfolding r_def using assms by (rule process_translations_value)
  have "fst ` set (translations_attr r) = set L" "distinct (map fst (translations_attr r))"
    using process_translations_keys [OF res] by simp_all
  moreover have "has_translations.more r = has_translations.more (item (hd L))"
    by (simp add: r_def)
  moreover have "\<forall>l \<in> set L. map_of (translations_attr r) l = Some (t l)"
    by (simp add: r_def map_of_dict_of map_of_rev_pairs)
  ultimately show ?thesis using res by blast
qed

text \<open>
  Two locales whose tasks complete in the reverse order: the other fields (here the
  locale the result was produced for) are those of the first locale.
\<close>

theorem process_translations_merge_witness:
  "\<exists>r. process_translations [1, 0]
          (\<lambda>l. Inr \<lparr>translations_attr = [(l, l @ ''-title'')], \<dots> = l\<rparr>) [''en'', ''fr'']
        = Inr r
      \<and> has_translations.more r = ''en''
      \<and> fst ` set (translations_attr r) = {''en'', ''fr''}
      \<and> map_of (translations_attr r) ''fr'' = Some ''fr-title''"
  using process_translations_merge
    [of "[''en'', ''fr'']" "\<lambda>l. Inr \<lparr>translations_attr = [(l, l @ ''-title'')], \<dots> = l\<rparr>"
        "\<lambda>l. \<lparr>translations_attr = [(l, l @ ''-title'')], \<dots> = l\<rparr>"
        "\<lambda>l. l @ ''-title''" "[1, 0]"]
  by auto

text \<open>
  A producer whose result has no translation under the locale it was asked for:
  \<open>v.translations[k]\<close> raises KeyError, and no entity is returned.
\<close>

theorem process_translations_counterexample:
  "process_translations [0]
     (\<lambda>l. Inr \<lparr>translations_attr = [] :: (string \<times> string) list\<rparr>) [''en'']
   = Inl (KeyError (JStr ''en''))"
  by (simp add: process_translations_def gather_def getitem_def)

text \<open>
  Claim C3, as the code has it. When the producer raises for a locale of the list, the
  aggregation raises, whatever the order of completion: it returns no entity, and its
  error is one that the producer raises for a locale of the list. It is the error of the
  given locale whenever no other locale of the list fails with a different error.
\<close>

theorem process_translations_all_or_nothing:
  assumes "l \<in> set L" and "f l = Inl e"
  shows "(\<exists>e'. process_translations order f L = Inl e' \<and> (\<exists>l' \<in> set L. f l' = Inl e'))
       \<and> ((\<forall>l' \<in> set L. \<forall>e'. f l' = Inl e' \<longrightarrow> e' = e)
            \<longrightarrow> process_translations order f L = Inl e)"
proof -
  from assms have "Inl e \<in> set (map f L)" by force
  then obtain e' where "gather order (map f L) = Inl e'" and "Inl e' \<in> set (map f L)"
    using gather_fails by blast
  then have "process_translations order f L = Inl e'" and "\<exists>l' \<in> set L. f l' = Inl e'"
    by (auto simp: process_translations_def)
  then show ?thesis by blast
qed

text \<open>
  The second of three locales raises.
\<close>

theorem all_or_nothing_witness:
  "process_translations [0, 1, 2]
     (\<lambda>l. if l = ''fr'' then Inl (ClientResponseError 404)
           else Inr \<lparr>translations_attr = [(l, l)]\<rparr>)
     [''en'', ''fr'', ''de'']
   = Inl (ClientResponseError 404)"
  using process_translations_all_or_nothing
    [of "''fr''" "[''en'', ''fr'', ''de'']"
        "\<lambda>l. if l = ''fr'' then Inl (ClientResponseError 404)
           else Inr \<lparr>translations_attr = [(l, l)]\<rparr>" "ClientResponseError 404" "[0, 1, 2]"]
  by auto

text \<open>
  Two locales fail with different errors: \<open>fr\<close> with ValueError, \<open>de\<close> with KeyError, and
  the task of \<open>de\<close> completes first. The aggregation raises the KeyError, not the error
  of \<open>fr\<close>.
\<close>

theorem all_or_nothing_counterexample:
  "process_translations [2, 1, 0]
     (\<lambda>l. if l = ''fr'' then Inl ValueError
           else if l = ''de'' then Inl (KeyError (JStr ''boom''))
           else Inr \<lparr>translations_attr = [(l, l)]\<rparr>)
     [''en'', ''fr'', ''de'']
   = Inl (KeyError (JStr ''boom''))
   \<and> Inl (KeyError (JStr ''boom'')) \<noteq> (Inl ValueError :: error + string has_translations)"
  by (simp add: process_translations_def gather_def)

section \<open>The fields of a movie\<close>

lemma genres_from_codes:
  assumes "list_all2 (\<lambda>x c. subscript x ''id'' = Inr (JNum c)) entries codes"
  shows "genres_from (JArr entries) = Inr (List.map_filter (map_of genre_map) codes)"
proof -
  have "list_all2 (\<lambda>x c. bindE (subscript x ''id'') in_genre_map = Inr (map_of genre_map c \<noteq> None)
            \<and> (map_of genre_map c \<noteq> None \<longrightarrow>
                 bindE (subscript x ''id'') genre_map_getitem = Inr (the (map_of genre_map c))))
          entries codes"
    using assms by (rule list_all2_mono) auto
  then have "comprehension (\<lambda>x. bindE (subscript x ''id'') in_genre_map)
               (\<lambda>x. bindE (subscript x ''id'') genre_map_getitem) entries
             = Inr (List.map_filter (map_of genre_map) codes)"
    by (induction entries codes rule: list_all2_induct) (auto simp: List.map_filter_simps)
  then show ?thesis by (simp add: genres_from_def)
qed

lemma build_movie_fields:
  assumes "build_movie self lng movie = Inr m"
  shows "\<exists>st. subscript movie ''status'' = Inr st
           \<and> status m = (if st = JStr ''Released'' then FINISHED else PLANNED)"
    and "\<exists>g. subscript movie ''genres'' = Inr g \<and> genres_from g = Inr (genres m)"
    and "\<exists>t. translations_attr m = [(lng, t)]"
    and "subscript movie ''original_language'' = Inr (original_language m)"
proof -
  from assms obtain ol al rd st sts gs ext tr where
    ol: "subscript movie ''original_language'' = Inr ol" and
    st: "subscript movie ''status'' = Inr st" and
    gs: "\<exists>g. subscript movie ''genres'' = Inr g \<and> genres_from g = Inr gs" and
    m: "m = \<lparr>translations_attr = [(lng, tr)],
            original_language = ol, aliases = al, release_date = rd,
            status = (if st = JStr ''Released'' then FINISHED else PLANNED),
            studios = sts, genres = gs, external_id = ext\<rparr>"
    unfolding build_movie_def
    by (elim bindE_InrE) (simp only: sum.inject, fast)
  show "\<exists>st. subscript movie ''status'' = Inr st
           \<and> status m = (if st = JStr ''Released'' then FINISHED else PLANNED)"
    using st m by simp
  show "\<exists>g. subscript movie ''genres'' = Inr g \<and> genres_from g = Inr (genres m)"
    using gs m by simp
  show "\<exists>t. translations_attr m = [(lng, t)]" using m by simp
  show "subscript movie ''original_language'' = Inr (original_language m)" using ol m by simp
qed

text \<open>
  Claim C8. The status of the movie built from a detail response is \<open>FINISHED\<close> exactly
  when the response's \<open>status\<close> is the string \<open>Released\<close>, and \<open>PLANNED\<close> exactly when it is
  anything else.
\<close>

theorem movie_status:
  assumes "build_movie self lng movie = Inr m"
  shows "(status m = FINISHED \<longleftrightarrow> subscript movie ''status'' = Inr (JStr ''Released''))
       \<and> (status m = PLANNED \<longleftrightarrow> subscript movie ''status'' \<noteq> Inr (JStr ''Released''))"
  using build_movie_fields(1) [OF assms] by (auto split: if_splits)

text \<open>
  The fake detail response with the remote status \<open>Post Production\<close>.
\<close>

theorem movie_status_witness:
  "\<exists>m. build_movie fake_provider ''en'' (fake_detail ''Post Production'' ''en'') = Inr m
       \<and> status m = PLANNED"
proof -
  obtain m where m: "build_movie fake_provider ''en'' (fake_detail ''Post Production'' ''en'') = Inr m"
    using fake_build_movie by blast
  have "subscript (fake_detail ''Post Production'' ''en'') ''status'' \<noteq> Inr (JStr ''Released'')"
    by (simp add: fake_detail_def)
  with movie_status [OF m] have "status m = PLANNED" by simp
  with m show ?thesis by blast
qed

text \<open>
  Claim C9. For a list of genre entries with the numeric codes \<open>codes\<close>, the
  comprehension raises nothing and gives the genres that the table has for those codes,
  in order, leaving out the codes that the table does not have; this is the genre list of
  a movie built from a response with these entries. The table maps 28 to \<open>ACTION\<close> and
  has no entry for 999999.
\<close>

theorem genre_list:
  assumes "list_all2 (\<lambda>x c. subscript x ''id'' = Inr (JNum c)) entries codes"
  shows "genres_from (JArr entries) = Inr (List.map_filter (map_of genre_map) codes)
       \<and> (\<forall>self lng movie m.
            build_movie self lng movie = Inr m \<and> subscript movie ''genres'' = Inr (JArr entries)
            \<longrightarrow> genres m = List.map_filter (map_of genre_map) codes)
       \<and> map_of genre_map 28 = Some ACTION
       \<and> map_of genre_map 999999 = None"
proof -
  have g: "genres_from (JArr entries) = Inr (List.map_filter (map_of genre_map) codes)"
    using assms by (rule genres_from_codes)
  have "genres m = List.map_filter (map_of genre_map) codes"
    if "build_movie self lng movie = Inr m" and "subscript movie ''genres'' = Inr (JArr entries)"
    for self lng movie m
    using build_movie_fields(2) [OF that(1)] that(2) g by auto
  moreover have "map_of genre_map 28 = Some ACTION" "map_of genre_map 999999 = None"
    by (simp_all add: genre_map_def)
  ultimately show ?thesis using g by blast
qed

text \<open>
  The codes 28 and 999999: the list is \<open>[ACTION]\<close>, also in the movie built from the
  fake detail response.
\<close>

theorem genre_list_witness:
  "genres_from (JArr [JObj [(''id'', JNum 28), (''name'', JStr ''Action'')],
                      JObj [(''id'', JNum 999999), (''name'', JStr ''Unknown'')]])
     = Inr [ACTION]
   \<and> (\<exists>m. build_movie fake_provider ''en'' (fake_detail ''Released'' ''en'') = Inr m
          \<and> genres m = [ACTION])"
proof -
  let ?es = "[JObj [(''id'', JNum 28), (''name'', JStr ''Action'')],
              JObj [(''id'', JNum 999999), (''name'', JStr ''Unknown'')]]"
  have h: "list_all2 (\<lambda>x c. subscript x ''id'' = Inr (JNum c)) ?es [28, 999999]"
    by simp
  note t = genre_list [OF h]
  obtain m where m: "build_movie fake_provider ''en'' (fake_detail ''Released'' ''en'') = Inr m"
    using fake_build_movie by blast
  have g: "subscript (fake_detail ''Released'' ''en'') ''genres'' = Inr (JArr ?es)"
    by (simp add: fake_detail_def)
  have mf: "List.map_filter (map_of genre_map) [28, 999999] = [ACTION]"
    by (simp add: List.map_filter_simps genre_map_def)
  from t m g have "genres m = List.map_filter (map_of genre_map) [28, 999999]"
    by blast
  with t m mf show ?thesis by auto
qed

section \<open>The identification operations\<close>

lemma first_result_empty:
  assumes "get self path params = Inr r" and "subscript r ''results'' = Inr (JArr [])"
  shows "first_result self path params = Inl IndexError"
  using assms by (simp add: first_result_def)

lemma identify_movie_empty:
  assumes "get self ''search/movie''
             [(''query'', JStr name),
              (''year'', case year of None \<Rightarrow> JNull | Some y \<Rightarrow> JNum y)] = Inr r"
    and "subscript r ''results'' = Inr (JArr [])"
  shows "identify_movie self order name year L = (L, Inl IndexError)"
  using first_result_empty [OF assms] by (simp add: identify_movie_def)

lemma identify_episode_empty:
  assumes "get self ''search/tv'' [(''query'', JStr name)] = Inr r"
    and "subscript r ''results'' = Inr (JArr [])"
  shows "identify_episode self order name season ep absolute L = (L, Inl IndexError)"
  using first_result_empty [OF assms] by (simp add: identify_episode_def)

lemma set_append_missing: "set (append_missing l L) = set L \<union> {l}"
  by (auto simp: append_missing_def)

lemma identify_movie_Inr:
  assumes "identify_movie self order name year L = (L', Inr m)"
  obtains search movie_id l where
    "first_result self ''search/movie''
       [(''query'', JStr name),
        (''year'', case year of None \<Rightarrow> JNull | Some y \<Rightarrow> JNum y)] = Inr search"
    "subscript search ''id'' = Inr movie_id"
    "subscript search ''original_language'' = Inr (JStr l)"
    "L' = append_missing l L"
    "process_translations order (movie_for_language self movie_id) (append_missing l L) = Inr m"
  using assms unfolding identify_movie_def
  by (auto simp: Let_def split: sum.splits json.splits)

lemma identify_movie_language:
  assumes "first_result self ''search/movie''
             [(''query'', JStr name),
              (''year'', case year of None \<Rightarrow> JNull | Some y \<Rightarrow> JNum y)] = Inr search"
    and "subscript search ''id'' = Inr movie_id"
    and "subscript search ''original_language'' = Inr (JStr l)"
  shows "fst (identify_movie self order name year L) = (if l \<in> set L then L else L @ [l])"
  using assms by (simp add: identify_movie_def append_missing_def Let_def)

lemma identify_episode_language:
  assumes "first_result self ''search/tv'' [(''query'', JStr name)] = Inr search"
    and "subscript search ''id'' = Inr show_id"
    and "subscript search ''original_language'' = Inr (JStr l)"
  shows "fst (identify_episode self order name season ep absolute L)
           = (if l \<in> set L then L else L @ [l])"
  using assms by (simp add: identify_episode_def append_missing_def Let_def)

lemma identify_show_language:
  assumes "map_of (partial_external_id sh) ''themoviedatabase'' = Some mid"
  shows "fst (identify_show self order sh L)
           = (if partial_original_language sh \<in> set L then L
              else L @ [partial_original_language sh])"
  using assms by (simp add: identify_show_def getitem_def append_missing_def Let_def)

lemma fake_identify_movie:
  "\<exists>m. identify_movie fake_provider order name year L = (append_missing ''en'' L, Inr m)"
proof -
  let ?f = "movie_for_language fake_provider (JNum 603)"
  let ?L = "append_missing ''en'' L"
  have "\<forall>l. \<exists>m. ?f l = Inr m"
    using fake_build_movie by (simp add: fake_movie_for_language)
  then obtain item where item: "\<And>l. ?f l = Inr (item l)" by metis
  have "\<forall>l. \<exists>t. translations_attr (item l) = [(l, t)]"
    using item build_movie_fields(3) by (metis fake_movie_for_language)
  then obtain t where "\<And>l. translations_attr (item l) = [(l, t l)]" by metis
  then have tr: "\<And>l. map_of (translations_attr (item l)) l = Some (t l)" by simp
  have ne: "?L \<noteq> []" by (auto simp: append_missing_def)
  have "process_translations order ?f ?L
          = Inr ((item (hd ?L))\<lparr>translations_attr := dict_of (map (\<lambda>l. (l, t l)) ?L)\<rparr>)"
    using ne item tr by (rule process_translations_value)
  then show ?thesis
    by (simp add: identify_movie_def fake_first_result Let_def)
qed

lemma fake_identify_episode:
  "\<exists>m. identify_episode fake_provider order name season ep absolute L
          = (append_missing ''en'' L, Inr (Coroutine (Inr m)))"
proof -
  let ?f = "movie_for_language fake_provider (JNum 603)"
  let ?L = "append_missing ''en'' L"
  have "\<forall>l. \<exists>m. ?f l = Inr m"
    using fake_build_movie by (simp add: fake_movie_for_language)
  then obtain item where item: "\<And>l. ?f l = Inr (item l)" by metis
  have "\<forall>l. \<exists>t. translations_attr (item l) = [(l, t)]"
    using item build_movie_fields(3) by (metis fake_movie_for_language)
  then obtain t where "\<And>l. translations_attr (item l) = [(l, t l)]" by metis
  then have tr: "\<And>l. map_of (translations_attr (item l)) l = Some (t l)" by simp
  have ne: "?L \<noteq> []" by (auto simp: append_missing_def)
  have "process_translations order ?f ?L
          = Inr ((item (hd ?L))\<lparr>translations_attr := dict_of (map (\<lambda>l. (l, t l)) ?L)\<rparr>)"
    using ne item tr by (rule process_translations_value)
  then show ?thesis
    by (simp add: identify_episode_def fake_first_result Let_def)
qed

lemma identify_movie_original_language:
  assumes "subscript search ''id'' = Inr movie_id"
    and "process_translations order (movie_for_language self movie_id) L' = Inr m"
  shows "\<exists>detail. get self (''/movie/'' @ format self movie_id) (detail_params (hd L'))
                     = Inr detail
           \<and> subscript detail ''original_language'' = Inr (original_language m)"
proof -
  from assms(2) obtain item kts where
    i: "movie_for_language self movie_id (hd L') = Inr item" and
    m: "m = item\<lparr>translations_attr := kts\<rparr>"
    by (rule process_translations_first)
  from i obtain detail where
    g: "get self (''/movie/'' @ format self movie_id) (detail_params (hd L')) = Inr detail" and
    b: "build_movie self (hd L') detail = Inr item"
    unfolding movie_for_language_def by (rule bindE_InrE)
  from build_movie_fields(4) [OF b] m
  have "subscript detail ''original_language'' = Inr (original_language m)" by simp
  with g show ?thesis by blast
qed

lemma identify_movie_result:
  assumes "first_result self ''search/movie''
             [(''query'', JStr name),
              (''year'', case year of None \<Rightarrow> JNull | Some y \<Rightarrow> JNum y)] = Inr search"
    and "subscript search ''original_language'' = Inr (JStr l)"
    and "identify_movie self order name year L = (L', Inr m)"
  shows "fst ` set (translations_attr m) = set L \<union> {l}
       \<and> distinct (map fst (translations_attr m))
       \<and> translations_attr m \<noteq> []
       \<and> (\<exists>movie_id detail.
             subscript search ''id'' = Inr movie_id
           \<and> get self (''/movie/'' @ format self movie_id)
                 (detail_params (hd (append_missing l L))) = Inr detail
           \<and> subscript detail ''original_language'' = Inr (original_language m))"
proof -
  from assms(3) obtain search' movie_id l' where
    s: "first_result self ''search/movie''
       [(''query'', JStr name),
        (''year'', case year of None \<Rightarrow> JNull | Some y \<Rightarrow> JNum y)] = Inr search'" and
    i: "subscript search' ''id'' = Inr movie_id" and
    ol: "subscript search' ''original_language'' = Inr (JStr l')" and
    p: "process_translations order (movie_for_language self movie_id) (append_missing l' L) = Inr m"
    by (rule identify_movie_Inr)
  from s assms(1) have "search' = search" by simp
  with ol assms(2) have l: "l' = l" by simp
  have k: "fst ` set (translations_attr m) = set L \<union> {l}"
    using process_translations_keys(1) [OF p] l by (simp add: set_append_missing)
  moreover have "distinct (map fst (translations_attr m))"
    by (rule process_translations_keys(2) [OF p])
  moreover from k have "translations_attr m \<noteq> []" by auto
  moreover have "\<exists>movie_id detail.
             subscript search ''id'' = Inr movie_id
           \<and> get self (''/movie/'' @ format self movie_id)
                 (detail_params (hd (append_missing l L))) = Inr detail
           \<and> subscript detail ''original_language'' = Inr (original_language m)"
    using identify_movie_original_language [OF i p] i \<open>search' = search\<close> l by blast
  ultimately show ?thesis by blast
qed

lemma mismatch_first_result:
  "first_result mismatch_provider ''search/movie'' ps
     = Inr (JObj [(''id'', JNum 603), (''original_language'', JStr ''en'')])"
  by (simp add: first_result_def get_def raise_for_status_def mismatch_provider_def
      fake_provider_def mismatch_client_def base_def fake_search_def)

lemma mismatch_movie_for_language:
  "movie_for_language mismatch_provider (JNum 603) lng
     = build_movie mismatch_provider lng
         (with_original_language ''ja'' (fake_detail ''Released'' lng))"
  by (simp add: movie_for_language_def get_def raise_for_status_def mismatch_provider_def
      fake_provider_def mismatch_client_def base_def format_603 request_params_def dict_of_def
      detail_params_def del: format.simps)

lemma mismatch_build_movie:
  "\<exists>m. build_movie mismatch_provider lng
          (with_original_language ''ja'' (fake_detail st lng)) = Inr m
       \<and> original_language m = JStr ''ja''"
  by (simp add: build_movie_def fake_detail_def with_original_language_def mismatch_provider_def
      fake_provider_def aliases_of_def genres_from_def movie_external_id_def translation_of_def
      get_image_def trailers_of_def genre_map_def getitem_def)

lemma mismatch_identify_movie:
  "\<exists>m. identify_movie mismatch_provider order name year L = (append_missing ''en'' L, Inr m)
       \<and> original_language m = JStr ''ja''
       \<and> fst ` set (translations_attr m) = set L \<union> {''en''}"
proof -
  let ?f = "movie_for_language mismatch_provider (JNum 603)"
  let ?L = "append_missing ''en'' L"
  have "\<forall>l. \<exists>m. ?f l = Inr m \<and> original_language m = JStr ''ja''"
    using mismatch_build_movie by (simp add: mismatch_movie_for_language)
  then obtain item where item: "\<And>l. ?f l = Inr (item l)"
    and oj: "\<And>l. original_language (item l) = JStr ''ja''" by metis
  have "\<forall>l. \<exists>t. translations_attr (item l) = [(l, t)]"
    using item build_movie_fields(3) by (metis mismatch_movie_for_language)
  then obtain t where "\<And>l. translations_attr (item l) = [(l, t l)]" by metis
  then have tr: "\<And>l. map_of (translations_attr (item l)) l = Some (t l)" by simp
  have ne: "?L \<noteq> []" by (auto simp: append_missing_def)
  define m where "m = (item (hd ?L))\<lparr>translations_attr := dict_of (map (\<lambda>l. (l, t l)) ?L)\<rparr>"
  have p: "process_translations order ?f ?L = Inr m"
    unfolding m_def using ne item tr by (rule process_translations_value)
  then have "identify_movie mismatch_provider order name year L = (?L, Inr m)"
    by (simp add: identify_movie_def mismatch_first_result Let_def)
  moreover have "original_language m = JStr ''ja''" by (simp add: m_def oj)
  moreover have "fst ` set (translations_attr m) = set L \<union> {''en''}"
    using process_translations_keys(1) [OF p] by (simp add: set_append_missing)
  ultimately show ?thesis by blast
qed

text \<open>
  Claim C2, as the code has it. When the first search result declares the original
  language \<open>l\<close> (a string) and \<open>identify_movie\<close> returns a movie, the keys of its
  translations are exactly the requested locales together with \<open>l\<close>; no key occurs twice,
  also when \<open>l\<close> is among the requested locales, and there is at least one key. The
  \<open>original_language\<close> of the movie returned is the one that the detail response for the
  first locale declares: it is \<open>l\<close> when that response agrees with the search result.
  (The list of requested locales need not be non-empty for this.)
\<close>

theorem identify_movie_translation_keys:
  assumes "first_result self ''search/movie''
             [(''query'', JStr name),
              (''year'', case year of None \<Rightarrow> JNull | Some y \<Rightarrow> JNum y)] = Inr search"
    and "subscript search ''original_language'' = Inr (JStr l)"
    and "identify_movie self order name year L = (L', Inr m)"
  shows "fst ` set (translations_attr m) = set L \<union> {l}
       \<and> distinct (map fst (translations_attr m))
       \<and> translations_attr m \<noteq> []
       \<and> (\<exists>movie_id detail.
             subscript search ''id'' = Inr movie_id
           \<and> get self (''/movie/'' @ format self movie_id)
                 (detail_params (hd (append_missing l L))) = Inr detail
           \<and> subscript detail ''original_language'' = Inr (original_language m))"
  using assms by (rule identify_movie_result)

text \<open>
  The fake transport, asked for \<open>fr\<close>, with the second task completing first: the search
  result and the detail responses both declare \<open>en\<close>.
\<close>

theorem identify_movie_translation_keys_witness:
  "\<exists>L' m. identify_movie fake_provider [1, 0] ''matrix'' None [''fr''] = (L', Inr m)
         \<and> fst ` set (translations_attr m) = {''fr'', ''en''}
         \<and> distinct (map fst (translations_attr m))
         \<and> original_language m = JStr ''en''"
proof -
  obtain m where m: "identify_movie fake_provider [1, 0] ''matrix'' None [''fr'']
                       = (append_missing ''en'' [''fr''], Inr m)"
    using fake_identify_movie by blast
  have s: "first_result fake_provider ''search/movie''
             [(''query'', JStr ''matrix''),
              (''year'', case None of None \<Rightarrow> JNull | Some y \<Rightarrow> JNum y)]
             = Inr (JObj [(''id'', JNum 603), (''original_language'', JStr ''en'')])"
    by (rule fake_first_result)
  have ol: "subscript (JObj [(''id'', JNum 603), (''original_language'', JStr ''en'')])
              ''original_language'' = Inr (JStr ''en'')"
    by simp
  note t = identify_movie_translation_keys [OF s ol m]
  from t have k: "fst ` set (translations_attr m) = {''fr'', ''en''}" by auto
  from t have d: "distinct (map fst (translations_attr m))" by blast
  from t obtain detail where
    g: "get fake_provider (''/movie/'' @ format fake_provider (JNum 603))
          (detail_params (hd (append_missing ''en'' [''fr'']))) = Inr detail" and
    o: "subscript detail ''original_language'' = Inr (original_language m)"
    by auto
  have "get fake_provider (''/movie/'' @ format fake_provider (JNum 603))
          (detail_params (hd (append_missing ''en'' [''fr'']))) = Inr (fake_detail ''Released'' ''fr'')"
    by (simp add: append_missing_def get_def raise_for_status_def fake_provider_def
        fake_client_def base_def format_603 request_params_def dict_of_def detail_params_def
        del: format.simps)
  with g have "detail = fake_detail ''Released'' ''fr''" by simp
  with o have "original_language m = JStr ''en''" by (simp add: fake_detail_def)
  with k d m show ?thesis by blast
qed

text \<open>
  The keys follow the search result, not the movie returned: with a search result that
  declares \<open>en\<close> and detail responses that declare \<open>ja\<close>, the movie returned for \<open>[fr]\<close>
  has the original language \<open>ja\<close> and the keys \<open>fr\<close> and \<open>en\<close>.
\<close>

theorem identify_movie_original_locale_counterexample:
  "let r = identify_movie mismatch_provider [0, 1] ''matrix'' None [''fr'']
   in fst r = [''fr'', ''en'']
    \<and> \<not> isl (snd r)
    \<and> original_language (projr (snd r)) = JStr ''ja''
    \<and> fst ` set (translations_attr (projr (snd r))) = {''fr'', ''en''}
    \<and> fst ` set (translations_attr (projr (snd r))) \<noteq> set [''fr''] \<union> {''ja''}"
proof -
  obtain m where m: "identify_movie mismatch_provider [0, 1] ''matrix'' None [''fr'']
                       = (append_missing ''en'' [''fr''], Inr m)"
    and o: "original_language m = JStr ''ja''"
    and k: "fst ` set (translations_attr m) = set [''fr''] \<union> {''en''}"
    using mismatch_identify_movie by blast
  from m have m': "identify_movie mismatch_provider [0, 1] ''matrix'' None [''fr'']
                     = ([''fr'', ''en''], Inr m)"
    by (simp add: append_missing_def)
  have c1: "fst (identify_movie mismatch_provider [0, 1] ''matrix'' None [''fr''])
              = [''fr'', ''en'']"
    by (simp only: m' fst_conv)
  have c2: "\<not> isl (snd (identify_movie mismatch_provider [0, 1] ''matrix'' None [''fr'']))"
    by (simp only: m' snd_conv sum.disc simp_thms)
  have pm: "projr (snd (identify_movie mismatch_provider [0, 1] ''matrix'' None [''fr''])) = m"
    by (simp only: m' snd_conv sum.sel)
  from k have k2: "fst ` set (translations_attr m) = {''fr'', ''en''}" by auto
  have "''en'' \<in> fst ` set (translations_attr m)" unfolding k2 by simp
  moreover have "''en'' \<notin> set [''fr''] \<union> {''ja''}" by simp
  ultimately have ne: "fst ` set (translations_attr m) \<noteq> set [''fr''] \<union> {''ja''}"
    by metis
  show ?thesis
    unfolding Let_def pm by (intro conjI c1 c2 o k2 ne)
qed

text \<open>
  Claim C5, as the code has it. When the search answers an empty result list,
  \<open>identify_movie\<close> and \<open>identify_episode\<close> raise IndexError, from \<open>["results"][0]\<close>, and
  leave the caller's list as it was.
\<close>

theorem empty_search_index_error:
  assumes "subscript r ''results'' = Inr (JArr [])"
  shows "(get self ''search/movie''
            [(''query'', JStr name),
             (''year'', case year of None \<Rightarrow> JNull | Some y \<Rightarrow> JNum y)] = Inr r
          \<longrightarrow> identify_movie self order name year L = (L, Inl IndexError))
       \<and> (get self ''search/tv'' [(''query'', JStr name)] = Inr r
          \<longrightarrow> identify_episode self order name season ep absolute L = (L, Inl IndexError))"
  using assms identify_movie_empty identify_episode_empty by blast

text \<open>
  The transport whose search finds nothing.
\<close>

theorem empty_search_index_error_witness:
  "identify_movie empty_search_provider [0] ''matrix'' (Some 1999) [''en'']
     = ([''en''], Inl IndexError)
   \<and> identify_episode empty_search_provider [0] ''matrix'' (Some 1) (Some 2) None [''en'']
     = ([''en''], Inl IndexError)"
proof -
  have g: "get empty_search_provider path ps = Inr (JObj [(''results'', JArr [])])" for path ps
    by (simp add: get_def raise_for_status_def empty_search_provider_def fake_provider_def)
  have s: "subscript (JObj [(''results'', JArr [])]) ''results'' = Inr (JArr [])"
    by simp
  from empty_search_index_error [OF s, of empty_search_provider "''matrix''" "Some 1999"
      "[0]" "[''en'']" "Some 1" "Some 2" None]
  show ?thesis by (simp add: g)
qed

text \<open>
  The error on an empty result list is IndexError, not NotFoundError.
\<close>

theorem empty_search_counterexample:
  "snd (identify_movie empty_search_provider [0] ''matrix'' None [''en'']) = Inl IndexError
   \<and> snd (identify_episode empty_search_provider [0] ''matrix'' None None None [''en''])
       = Inl IndexError
   \<and> Inl IndexError \<noteq> (Inl NotFoundError :: error + movie)"
  by (simp add: identify_movie_def identify_episode_def first_result_def get_def
      raise_for_status_def empty_search_provider_def fake_provider_def)

text \<open>
  Claim C10, as the code has it. When the search of \<open>identify_movie\<close> or of
  \<open>identify_episode\<close> gives a first result with an \<open>id\<close> and the original language \<open>l\<close>, and
  when the partial show given to \<open>identify_show\<close> has an external id for this provider,
  the caller's list after the call is the list before it with the original language
  appended if it was not in it, and the same list otherwise (whether or not the requests
  that follow succeed).
\<close>

theorem language_list_appended:
  "(first_result self ''search/movie''
      [(''query'', JStr name),
       (''year'', case year of None \<Rightarrow> JNull | Some y \<Rightarrow> JNum y)] = Inr search
    \<and> subscript search ''id'' = Inr i
    \<and> subscript search ''original_language'' = Inr (JStr l)
    \<longrightarrow> fst (identify_movie self order name year L) = (if l \<in> set L then L else L @ [l]))
   \<and> (first_result self ''search/tv'' [(''query'', JStr name)] = Inr search
    \<and> subscript search ''id'' = Inr i
    \<and> subscript search ''original_language'' = Inr (JStr l)
    \<longrightarrow> fst (identify_episode self order name season ep absolute L)
          = (if l \<in> set L then L else L @ [l]))
   \<and> (map_of (partial_external_id sh) ''themoviedatabase'' = Some mid
    \<longrightarrow> fst (identify_show self order sh L)
          = (if partial_original_language sh \<in> set L then L
             else L @ [partial_original_language sh]))"
proof (intro conjI impI; (elim conjE)?)
  assume "first_result self ''search/movie''
            [(''query'', JStr name),
             (''year'', case year of None \<Rightarrow> JNull | Some y \<Rightarrow> JNum y)] = Inr search"
    and "subscript search ''id'' = Inr i"
    and "subscript search ''original_language'' = Inr (JStr l)"
  then show "fst (identify_movie self order name year L) = (if l \<in> set L then L else L @ [l])"
    by (rule identify_movie_language)
next
  assume "first_result self ''search/tv'' [(''query'', JStr name)] = Inr search"
    and "subscript search ''id'' = Inr i"
    and "subscript search ''original_language'' = Inr (JStr l)"
  then show "fst (identify_episode self order name season ep absolute L)
               = (if l \<in> set L then L else L @ [l])"
    by (rule identify_episode_language)
next
  assume "map_of (partial_external_id sh) ''themoviedatabase'' = Some mid"
  then show "fst (identify_show self order sh L)
               = (if partial_original_language sh \<in> set L then L
                  else L @ [partial_original_language sh])"
    by (rule identify_show_language)
qed

text \<open>
  Through the fake transport: \<open>en\<close> is appended to \<open>[fr]\<close> and not to \<open>[en]\<close>; the
  original language \<open>ja\<close> of a partial show is appended to \<open>[fr]\<close>.
\<close>

theorem language_list_appended_witness:
  "fst (identify_movie fake_provider [0, 1] ''matrix'' None [''fr'']) = [''fr'', ''en'']
   \<and> fst (identify_episode fake_provider [0] ''matrix'' (Some 1) (Some 1) None [''en''])
       = [''en'']
   \<and> fst (identify_show fake_provider [0, 1]
            \<lparr>partial_external_id =
               [(''themoviedatabase'',
                 \<lparr>data_id = JNum 1399, link = ''https://www.themoviedb.org/tv/1399''\<rparr>)],
             partial_original_language = ''ja''\<rparr> [''fr''])
       = [''fr'', ''ja'']"
  using language_list_appended
    [of fake_provider "''matrix''" None
        "JObj [(''id'', JNum 603), (''original_language'', JStr ''en'')]" "JNum 603" "''en''"
        "[0, 1]" "[''fr'']" "Some 1" "Some 1" None
        "\<lparr>partial_external_id =
               [(''themoviedatabase'',
                 \<lparr>data_id = JNum 1399, link = ''https://www.themoviedb.org/tv/1399''\<rparr>)],
             partial_original_language = ''ja''\<rparr>"
        "\<lparr>data_id = JNum 1399, link = ''https://www.themoviedb.org/tv/1399''\<rparr>"]
    language_list_appended
    [of fake_provider "''matrix''" None
        "JObj [(''id'', JNum 603), (''original_language'', JStr ''en'')]" "JNum 603" "''en''"
        "[0]" "[''en'']" "Some 1" "Some 1" None
        "\<lparr>partial_external_id =
               [(''themoviedatabase'',
                 \<lparr>data_id = JNum 1399, link = ''https://www.themoviedb.org/tv/1399''\<rparr>)],
             partial_original_language = ''ja''\<rparr>"
        "\<lparr>data_id = JNum 1399, link = ''https://www.themoviedb.org/tv/1399''\<rparr>"]
  by (simp add: fake_first_result)

text \<open>
  A partial show without an external id for this provider: \<open>identify_show\<close> raises
  KeyError before the list is touched, although the original language is not in it.
\<close>

theorem identify_show_counterexample:
  "identify_show fake_provider [0]
     \<lparr>partial_external_id = [], partial_original_language = ''ja''\<rparr> [''en'']
   = ([''en''], Inl (KeyError (JStr ''themoviedatabase'')))"
  by (simp add: identify_show_def getitem_def)

text \<open>
  Claim C4 does not hold. \<open>identify_episode\<close> never returns an episode: its last
  statement returns the coroutine of \<open>process_translations\<close> without awaiting it, and what
  that coroutine produces is a movie. Through the fake transport the caller receives a
  coroutine that would give a movie.
\<close>

theorem identify_episode_returns_coroutine:
  "snd (identify_episode self order name season ep absolute L) \<noteq> Inr (Episode e)
   \<and> (\<exists>m. identify_episode fake_provider [0, 1] ''matrix'' (Some 1) (Some 1) None [''fr'']
            = ([''fr'', ''en''], Inr (Coroutine (Inr m))))"
proof -
  have "snd (identify_episode self order name season ep absolute L) \<noteq> Inr (Episode e)"
    by (auto simp: identify_episode_def Let_def split: sum.splits json.splits)
  moreover have "\<exists>m. identify_episode fake_provider [0, 1] ''matrix'' (Some 1) (Some 1) None [''fr'']
            = ([''fr'', ''en''], Inr (Coroutine (Inr m)))"
    using fake_identify_episode [of "[0, 1]" "''matrix''" "Some 1" "Some 1" None "[''fr'']"]
    by (simp add: append_missing_def)
  ultimately show ?thesis by blast
qed

end
